theory Spec2Isabelle
  imports Complex_Main
begin

section \<open>Interaction contexts of discord\_slash: data model\<close>

text \<open>
  The development follows \<^verbatim>\<open>src/discord_slash/context.py\<close>. The classes of discord.py
  (\<^verbatim>\<open>discord.Embed\<close>, \<^verbatim>\<open>discord.File\<close>, \<^verbatim>\<open>discord.Color\<close>) and the HTTP collaborator
  are not part of the repository: they appear here as plain values and as a parameter.
  A call on the HTTP collaborator is taken to return its response; an operation is a
  function from the context and the world around it to an outcome, the exception raised
  or the value returned, together with the context and the world it leaves.
\<close>

datatype color = Green | Red | Orange | Greyple | OtherColor nat

text \<open>
  A \<^verbatim>\<open>discord.Embed\<close>. Python's truth test on an embed consults its \<^verbatim>\<open>__len__\<close>, the
  total length of its text, so an embed without any text is falsy.
\<close>

record embed =
  e_title :: string
  e_description :: string
  e_footer :: string
  e_color :: "color option"

definition embed_truthy :: "embed \<Rightarrow> bool" where
  "embed_truthy e = (length (e_title e) + length (e_description e) + length (e_footer e) \<noteq> 0)"

text \<open>A \<^verbatim>\<open>discord.File\<close> is an open handle; it defines no truth test, so it is always truthy.\<close>

type_synonym attachment = nat

record button =
  b_style :: nat
  b_custom_id :: string
  b_disabled :: bool

text \<open>
  A top-level component is a dictionary: \<open>c_type\<close> is \<^verbatim>\<open>comp.get("type")\<close>,
  \<open>c_components\<close> is \<^verbatim>\<open>row["components"]\<close>.
\<close>

record component =
  c_type :: "int option"
  c_components :: "button list"

text \<open>
  The \<^verbatim>\<open>embeds\<close> argument: \<^verbatim>\<open>None\<close>, a list, or some other sequence (a tuple, say),
  which \<^verbatim>\<open>isinstance(embeds, list)\<close> rejects.
\<close>

datatype embeds_arg = NoEmbeds | EmbedList "embed list" | EmbedNonList "embed list"

fun embeds_truthy :: "embeds_arg \<Rightarrow> bool" where
  "embeds_truthy NoEmbeds = False"
| "embeds_truthy (EmbedList es) = (es \<noteq> [])"
| "embeds_truthy (EmbedNonList es) = (es \<noteq> [])"

fun embeds_items :: "embeds_arg \<Rightarrow> embed list" where
  "embeds_items NoEmbeds = []"
| "embeds_items (EmbedList es) = es"
| "embeds_items (EmbedNonList es) = es"

fun is_list :: "embeds_arg \<Rightarrow> bool" where
  "is_list (EmbedList es) = True"
| "is_list _ = False"

definition files_truthy :: "attachment list option \<Rightarrow> bool" where
  "files_truthy fs = (case fs of None \<Rightarrow> False | Some l \<Rightarrow> l \<noteq> [])"

definition delay_truthy :: "real option \<Rightarrow> bool" where
  "delay_truthy d = (case d of None \<Rightarrow> False | Some x \<Rightarrow> x \<noteq> 0)"

definition components_truthy :: "component list option \<Rightarrow> bool" where
  "components_truthy cs = (case cs of None \<Rightarrow> False | Some l \<Rightarrow> l \<noteq> [])"

subsection \<open>Requests and responses\<close>

text \<open>
  The JSON body of a message request. A field is \<open>None\<close> when the key is absent;
  \<open>b_content = Some None\<close> is the key bound to \<^verbatim>\<open>None\<close>. The \<^verbatim>\<open>allowed_mentions\<close>
  entry is computed by discord.py from the bot's settings and is not represented.
\<close>

record body =
  b_content :: "string option option"
  b_tts :: "bool option"
  b_embeds :: "embed list option"
  b_components :: "component list option"
  b_flags :: "nat option"

definition empty_body :: body where
  "empty_body = \<lparr>b_content = None, b_tts = None, b_embeds = None, b_components = None,
     b_flags = None\<rparr>"

text \<open>
  The body of \<^verbatim>\<open>post_initial_response\<close>: \<open>Ack t fl\<close> is \<^verbatim>\<open>{"type": t}\<close>, with
  \<^verbatim>\<open>"data": {"flags": n}\<close> when \<open>fl = Some n\<close>; \<open>WithData t b\<close> is
  \<^verbatim>\<open>{"type": t, "data": b}\<close>.
\<close>

datatype payload = Ack nat "nat option" | WithData nat body

datatype request =
    PostInitialResponse payload
  | Edit body "attachment list option"
  | PostFollowup body "attachment list option"

text \<open>
  A decoded response: \<open>r_id\<close> is the value under \<^verbatim>\<open>"id"\<close> when the key is there,
  \<open>r_embeds\<close> the embeds of the message. \<open>empty_resp\<close> is the dictionary \<^verbatim>\<open>{}\<close>.
\<close>

datatype resp = Resp (r_id: "int option") (r_embeds: "embed list")

definition empty_resp :: resp where
  "empty_resp = Resp None []"


text \<open>
  The HTTP collaborator (\<^verbatim>\<open>http.SlashCommandRequest\<close>) is a parameter: given the requests
  issued so far and the next request it returns the decoded response.
\<close>

type_synonym http = "request list \<Rightarrow> request \<Rightarrow> resp"

text \<open>\<^verbatim>\<open>model.SlashMessage\<close>, built from the response data.\<close>

record slash_message =
  sm_id :: "int option"
  sm_embeds :: "embed list"

definition SlashMessage :: "resp \<Rightarrow> slash_message" where
  "SlashMessage r = \<lparr>sm_id = r_id r, sm_embeds = r_embeds r\<rparr>"

datatype log_warning = HiddenMismatch | EditOriginMismatch | LoggedException

datatype embed_type = success | error | warning

datatype py_error =
    AlreadyResponded string
  | IncorrectFormat string
  | AttributeError
  | IndexError
  | KeyError
  | TypeError
  | CancelledError
  | TimeoutError
  | OtherException

text \<open>
  Everything outside the context object that the operations touch: the requests sent, in
  order; the warnings logged; the files closed; the delayed-delete tasks handed to the
  event loop; the messages deleted through \<^verbatim>\<open>message.delete()\<close>; the dictionaries held
  by the members of \<^verbatim>\<open>EmbedType\<close>; and the text \<^verbatim>\<open>time.strftime\<close> returns.
\<close>

record world =
  requests :: "request list"
  warnings :: "log_warning list"
  closed :: "attachment list"
  tasks :: "(slash_message \<times> real) list"
  deleted :: "slash_message list"
  embed_values :: "embed_type \<Rightarrow> embed"
  now :: string

datatype ctx_kind = Interaction | Slash | Component | Menu

record ctx =
  kind :: ctx_kind
  deferred :: bool
  responded :: bool
  deferred_hidden :: bool
  deferred_edit_origin :: bool
  message :: "slash_message option"

text \<open>The state \<^verbatim>\<open>__init__\<close> leaves: both flags false, no message.\<close>

definition init_context :: "ctx_kind \<Rightarrow> ctx" where
  "init_context k = \<lparr>kind = k, deferred = False, responded = False, deferred_hidden = False,
     deferred_edit_origin = False, message = None\<rparr>"

type_synonym 'a outcome = "(py_error + 'a) \<times> ctx \<times> world"

definition http_call :: "http \<Rightarrow> request \<Rightarrow> world \<Rightarrow> resp \<times> world" where
  "http_call srv r w = (srv (requests w) r, w\<lparr>requests := requests w @ [r]\<rparr>)"

section \<open>defer\<close>

text \<open>\<^verbatim>\<open>InteractionContext.defer\<close>, inherited by \<^verbatim>\<open>SlashContext\<close>.\<close>

definition interaction_defer :: "http \<Rightarrow> bool \<Rightarrow> ctx \<Rightarrow> world \<Rightarrow> unit outcome" where
  "interaction_defer srv hid c w =
    (if deferred c \<or> responded c
     then (Inl (AlreadyResponded ''You have already responded to this command!''), c, w)
     else
       let base = Ack 5 (if hid then Some 64 else None);
           c1 = (if hid then c\<lparr>deferred_hidden := True\<rparr> else c);
           w1 = snd (http_call srv (PostInitialResponse base) w)
       in (Inr (), c1\<lparr>deferred := True\<rparr>, w1))"

text \<open>\<^verbatim>\<open>ComponentContext.defer\<close>; \<^verbatim>\<open>MenuContext.defer\<close> has the same body.\<close>

definition component_defer ::
  "http \<Rightarrow> bool \<Rightarrow> bool \<Rightarrow> bool \<Rightarrow> ctx \<Rightarrow> world \<Rightarrow> unit outcome" where
  "component_defer srv hid eo ign c w =
    (if deferred c \<or> responded c
     then (Inl (AlreadyResponded ''You have already responded to this command!''), c, w)
     else if eo \<and> ign
     then (Inl (IncorrectFormat '''edit_origin' and 'ignore' are mutually exclusive''), c, w)
     else if hid \<and> eo
     then (Inl (IncorrectFormat '''hidden' and 'edit_origin' flags are mutually exclusive''), c, w)
     else
       let base = Ack (if eo \<or> ign then 6 else 5) (if hid \<and> \<not> ign then Some 64 else None);
           c1 = (if hid then c\<lparr>deferred_hidden := True\<rparr> else c);
           c2 = c1\<lparr>deferred_edit_origin := eo\<rparr>;
           w1 = snd (http_call srv (PostInitialResponse base) w);
           c3 = c2\<lparr>deferred := \<not> ign\<rparr>;
           c4 = (if ign then c3\<lparr>responded := True\<rparr> else c3)
       in (Inr (), c4, w1))"

text \<open>
  \<^verbatim>\<open>self.defer(hidden=...)\<close> and \<^verbatim>\<open>self.defer(edit_origin=True)\<close> as the class of the
  context resolves them; the base method has no \<^verbatim>\<open>edit_origin\<close> parameter.
\<close>

definition self_defer :: "http \<Rightarrow> bool \<Rightarrow> bool \<Rightarrow> ctx \<Rightarrow> world \<Rightarrow> unit outcome" where
  "self_defer srv hid eo c w =
    (case kind c of
       Interaction \<Rightarrow> (if eo then (Inl TypeError, c, w) else interaction_defer srv hid c w)
     | Slash \<Rightarrow> (if eo then (Inl TypeError, c, w) else interaction_defer srv hid c w)
     | Component \<Rightarrow> component_defer srv hid eo False c w
     | Menu \<Rightarrow> component_defer srv hid eo False c w)"

section \<open>send\<close>

text \<open>
  The arguments of \<^verbatim>\<open>send\<close>. \<^verbatim>\<open>delete_after\<close> is a number of seconds, of which the
  method only tests whether it is zero; \<^verbatim>\<open>allowed_mentions\<close> is left out, as in
  the request body.
\<close>

record send_args =
  s_content :: string
  s_embed :: "embed option"
  s_embeds :: embeds_arg
  s_tts :: bool
  s_file :: "attachment option"
  s_files :: "attachment list option"
  s_hidden :: bool
  s_delete_after :: "real option"
  s_components :: "component list option"

text \<open>What \<^verbatim>\<open>send\<close> returns: a \<^verbatim>\<open>SlashMessage\<close>, or the response dictionary.\<close>

datatype send_ret = RetMessage slash_message | RetDict resp

definition embed_arg_truthy :: "embed option \<Rightarrow> bool" where
  "embed_arg_truthy e = (case e of None \<Rightarrow> False | Some x \<Rightarrow> embed_truthy x)"

text \<open>
  The argument checks at the head of \<^verbatim>\<open>InteractionContext.send\<close>, in the order of the
  source. They return the \<^verbatim>\<open>embeds\<close> and \<^verbatim>\<open>files\<close> the rest of the method uses.
\<close>

definition send_checks :: "send_args \<Rightarrow> py_error + (embeds_arg \<times> attachment list option)" where
  "send_checks a =
    (if embed_arg_truthy (s_embed a) \<and> embeds_truthy (s_embeds a)
     then Inl (IncorrectFormat ''You can't use both `embed` and `embeds`!'')
     else
       let embeds1 = (if embed_arg_truthy (s_embed a)
                      then EmbedList (case s_embed a of None \<Rightarrow> [] | Some e \<Rightarrow> [e])
                      else s_embeds a)
       in
       if embeds_truthy embeds1 \<and> \<not> is_list embeds1
       then Inl (IncorrectFormat ''Provide a list of embeds.'')
       else if embeds_truthy embeds1 \<and> length (embeds_items embeds1) > 10
       then Inl (IncorrectFormat ''Do not provide more than 10 embeds.'')
       else if s_file a \<noteq> None \<and> files_truthy (s_files a)
       then Inl (IncorrectFormat ''You can't use both `file` and `files`!'')
       else
         let files1 = (case s_file a of None \<Rightarrow> s_files a | Some f \<Rightarrow> Some [f])
         in
         if delay_truthy (s_delete_after a) \<and> s_hidden a
         then Inl (IncorrectFormat ''You can't delete a hidden message!'')
         else if components_truthy (s_components a) \<and>
                 \<not> list_all (\<lambda>comp. c_type comp = Some 1)
                     (case s_components a of None \<Rightarrow> [] | Some l \<Rightarrow> l)
         then Inl (IncorrectFormat
                ''The top level of the components list must be made of ActionRows!'')
         else Inr (embeds1, files1))"

definition send_base :: "send_args \<Rightarrow> embeds_arg \<Rightarrow> body" where
  "send_base a embeds1 =
    \<lparr>b_content = Some (Some (s_content a)),
     b_tts = Some (s_tts a),
     b_embeds = Some (if embeds_truthy embeds1 then embeds_items embeds1 else []),
     b_components = Some (case s_components a of None \<Rightarrow> [] | Some l \<Rightarrow> l),
     b_flags = (if s_hidden a then Some 64 else None)\<rparr>"

definition log_warning :: "log_warning \<Rightarrow> world \<Rightarrow> world" where
  "log_warning x w = w\<lparr>warnings := warnings w @ [x]\<rparr>"

definition close_files :: "attachment list option \<Rightarrow> world \<Rightarrow> world" where
  "close_files fs w = (case fs of None \<Rightarrow> w | Some l \<Rightarrow> w\<lparr>closed := closed w @ l\<rparr>)"

text \<open>
  The state machine of \<^verbatim>\<open>send\<close> (the block from \<^verbatim>\<open>initial_message = False\<close> to the
  followup). It returns \<^verbatim>\<open>resp\<close> and \<^verbatim>\<open>initial_message\<close>.
\<close>

definition send_respond ::
  "http \<Rightarrow> body \<Rightarrow> attachment list option \<Rightarrow> bool \<Rightarrow> ctx \<Rightarrow> world \<Rightarrow> (resp \<times> bool) outcome" where
  "send_respond srv base files1 hid c w =
    (if \<not> responded c then
       (case (if files_truthy files1 \<and> \<not> deferred c
              then self_defer srv hid False c w else (Inr (), c, w)) of
          (Inl e, c1, w1) \<Rightarrow> (Inl e, c1, w1)
        | (Inr u, c1, w1) \<Rightarrow>
            if deferred c1 then
              let w2 = (if deferred_hidden c1 \<noteq> hid then log_warning HiddenMismatch w1 else w1);
                  (resp, w3) = http_call srv (Edit base files1) w2
              in (Inr (resp, True), c1\<lparr>deferred := False, responded := True\<rparr>, w3)
            else
              let w2 = snd (http_call srv (PostInitialResponse (WithData 4 base)) w1)
              in if \<not> hid
                 then let (resp, w3) = http_call srv (Edit empty_body None) w2
                      in (Inr (resp, True), c1\<lparr>responded := True\<rparr>, w3)
                 else (Inr (empty_resp, True), c1\<lparr>responded := True\<rparr>, w2))
     else
       let (resp, w1) = http_call srv (PostFollowup base files1) w
       in (Inr (resp, False), c, w1))"

text \<open>\<^verbatim>\<open>InteractionContext.send\<close>.\<close>

definition send :: "http \<Rightarrow> send_args \<Rightarrow> ctx \<Rightarrow> world \<Rightarrow> send_ret outcome" where
  "send srv a c w =
    (case send_checks a of
       Inl e \<Rightarrow> (Inl e, c, w)
     | Inr (embeds1, files1) \<Rightarrow>
        (case send_respond srv (send_base a embeds1) files1 (s_hidden a) c w of
           (Inl e, c1, w1) \<Rightarrow> (Inl e, c1, w1)
         | (Inr (resp, initial_message), c1, w1) \<Rightarrow>
             let w2 = (if files_truthy files1 then close_files files1 w1 else w1)
             in if \<not> s_hidden a then
                  let smsg = SlashMessage resp;
                      w3 = (case s_delete_after a of
                              None \<Rightarrow> w2
                            | Some d \<Rightarrow> if d \<noteq> 0 then w2\<lparr>tasks := tasks w2 @ [(smsg, d)]\<rparr>
                                        else w2);
                      c2 = (if initial_message then c1\<lparr>message := Some smsg\<rparr> else c1)
                  in (Inr (RetMessage smsg), c2, w3)
                else (Inr (RetDict resp), c1, w2)))"

text \<open>\<^verbatim>\<open>ComponentContext.send\<close> and \<^verbatim>\<open>MenuContext.send\<close>: a warning, then the base method.\<close>

definition component_send :: "http \<Rightarrow> send_args \<Rightarrow> ctx \<Rightarrow> world \<Rightarrow> send_ret outcome" where
  "component_send srv a c w =
    send srv a c (if deferred c \<and> deferred_edit_origin c
                  then log_warning EditOriginMismatch w else w)"

definition self_send :: "http \<Rightarrow> send_args \<Rightarrow> ctx \<Rightarrow> world \<Rightarrow> send_ret outcome" where
  "self_send srv a c w =
    (case kind c of
       Interaction \<Rightarrow> send srv a c w
     | Slash \<Rightarrow> send srv a c w
     | Component \<Rightarrow> component_send srv a c w
     | Menu \<Rightarrow> component_send srv a c w)"

section \<open>edit\_origin\<close>

text \<open>
  The keyword arguments of \<^verbatim>\<open>edit_origin\<close>. The outer \<open>option\<close> of \<open>eo_content\<close>,
  \<open>eo_components\<close>, \<open>eo_embeds\<close> and \<open>eo_embed\<close> says whether the key is in
  \<^verbatim>\<open>fields\<close>; \<open>eo_embeds = Some NoEmbeds\<close> is \<^verbatim>\<open>embeds=None\<close>. \<open>eo_file\<close> and
  \<open>eo_files\<close> are read with \<^verbatim>\<open>fields.get\<close>.
\<close>

record edit_fields =
  eo_content :: "string option option"
  eo_components :: "component list option option"
  eo_embeds :: "embeds_arg option"
  eo_embed :: "embed option option"
  eo_file :: "attachment option"
  eo_files :: "attachment list option"

text \<open>The part of \<^verbatim>\<open>edit_origin\<close> that builds \<^verbatim>\<open>_resp\<close> and \<^verbatim>\<open>files\<close>.\<close>

definition edit_origin_fields :: "edit_fields \<Rightarrow> py_error + (body \<times> attachment list option)" where
  "edit_origin_fields f =
    (let r1 = (case eo_content f of
                 None \<Rightarrow> empty_body
               | Some cn \<Rightarrow> empty_body\<lparr>b_content := Some cn\<rparr>);
         r2 = (case eo_components f of
                 None \<Rightarrow> r1
               | Some None \<Rightarrow> r1\<lparr>b_components := Some []\<rparr>
               | Some (Some cs) \<Rightarrow> r1\<lparr>b_components := Some cs\<rparr>)
     in
     case (case eo_embeds f of
             None \<Rightarrow> Inr r2
           | Some es \<Rightarrow>
               if \<not> is_list es then Inl (IncorrectFormat ''Provide a list of embeds.'')
               else if length (embeds_items es) > 10
               then Inl (IncorrectFormat ''Do not provide more than 10 embeds.'')
               else Inr (r2\<lparr>b_embeds := Some (embeds_items es)\<rparr>)) of
       Inl e \<Rightarrow> Inl e
     | Inr r3 \<Rightarrow>
        (case (case eo_embed f of
                 None \<Rightarrow> Inr r3
               | Some em \<Rightarrow>
                   if b_embeds r3 \<noteq> None
                   then Inl (IncorrectFormat ''You can't use both `embed` and `embeds`!'')
                   else Inr (r3\<lparr>b_embeds := Some (case em of None \<Rightarrow> [] | Some e \<Rightarrow> [e])\<rparr>)) of
           Inl e \<Rightarrow> Inl e
         | Inr r4 \<Rightarrow>
             if eo_files f \<noteq> None \<and> eo_file f \<noteq> None
             then Inl (IncorrectFormat ''You can't use both `file` and `files`!'')
             else Inr (r4, case eo_file f of None \<Rightarrow> eo_files f | Some x \<Rightarrow> Some [x])))"

text \<open>\<^verbatim>\<open>ComponentContext.edit_origin\<close>.\<close>

definition edit_origin :: "http \<Rightarrow> edit_fields \<Rightarrow> ctx \<Rightarrow> world \<Rightarrow> unit outcome" where
  "edit_origin srv f c w =
    (case edit_origin_fields f of
       Inl e \<Rightarrow> (Inl e, c, w)
     | Inr (r, files1) \<Rightarrow>
        if \<not> responded c then
          (case (if files_truthy files1 \<and> \<not> deferred c
                 then self_defer srv False True c w else (Inr (), c, w)) of
             (Inl e, c1, w1) \<Rightarrow> (Inl e, c1, w1)
           | (Inr u, c1, w1) \<Rightarrow>
               let (c2, w2) =
                     (if deferred c1 then
                        let w' = (if \<not> deferred_edit_origin c1
                                  then log_warning EditOriginMismatch w1 else w1)
                        in (c1\<lparr>deferred := False\<rparr>, snd (http_call srv (Edit r files1) w'))
                      else
                        (c1, snd (http_call srv (PostInitialResponse (WithData 7 r)) w1)));
                   w3 = (if files_truthy files1 then close_files files1 w2 else w2)
               in (Inr (), c2\<lparr>responded := True\<rparr>, w3))
        else (Inl (IncorrectFormat ''Already responded''), c, w))"

section \<open>Sequences of operations\<close>

text \<open>
  A call a command callback can make on its context. \<open>Defer h\<close> is \<^verbatim>\<open>ctx.defer(hidden=h)\<close>;
  \<open>DeferExt h e i\<close> passes \<^verbatim>\<open>edit_origin\<close> and \<^verbatim>\<open>ignore\<close> as well, which only the
  component and menu contexts accept; \<^verbatim>\<open>edit_origin\<close> exists on component contexts only.
\<close>

datatype op = Defer bool | DeferExt bool bool bool | Send send_args | EditOrigin edit_fields

definition call_defer :: "http \<Rightarrow> bool \<Rightarrow> ctx \<Rightarrow> world \<Rightarrow> unit outcome" where
  "call_defer srv hid c w =
    (case kind c of
       Interaction \<Rightarrow> interaction_defer srv hid c w
     | Slash \<Rightarrow> interaction_defer srv hid c w
     | Component \<Rightarrow> component_defer srv hid False False c w
     | Menu \<Rightarrow> component_defer srv hid False False c w)"

definition call_defer_ext :: "http \<Rightarrow> bool \<Rightarrow> bool \<Rightarrow> bool \<Rightarrow> ctx \<Rightarrow> world \<Rightarrow> unit outcome" where
  "call_defer_ext srv hid eo ign c w =
    (case kind c of
       Interaction \<Rightarrow> (Inl TypeError, c, w)
     | Slash \<Rightarrow> (Inl TypeError, c, w)
     | Component \<Rightarrow> component_defer srv hid eo ign c w
     | Menu \<Rightarrow> component_defer srv hid eo ign c w)"

definition call_edit_origin :: "http \<Rightarrow> edit_fields \<Rightarrow> ctx \<Rightarrow> world \<Rightarrow> unit outcome" where
  "call_edit_origin srv f c w =
    (case kind c of
       Component \<Rightarrow> edit_origin srv f c w
     | Interaction \<Rightarrow> (Inl AttributeError, c, w)
     | Slash \<Rightarrow> (Inl AttributeError, c, w)
     | Menu \<Rightarrow> (Inl AttributeError, c, w))"

text \<open>
  One call, keeping the state it leaves whether it returned or raised (the callback may
  catch the exception and go on).
\<close>

fun step :: "http \<Rightarrow> op \<Rightarrow> ctx \<times> world \<Rightarrow> ctx \<times> world" where
  "step srv (Defer h) (c, w) = snd (call_defer srv h c w)"
| "step srv (DeferExt h e i) (c, w) = snd (call_defer_ext srv h e i c w)"
| "step srv (Send a) (c, w) = snd (self_send srv a c w)"
| "step srv (EditOrigin f) (c, w) = snd (call_edit_origin srv f c w)"

fun run :: "http \<Rightarrow> op list \<Rightarrow> ctx \<times> world \<Rightarrow> ctx \<times> world" where
  "run srv [] s = s"
| "run srv (x # xs) s = run srv xs (step srv x s)"

section \<open>The confirmation prompt\<close>

text \<open>
  The dictionaries the members of \<^verbatim>\<open>EmbedType\<close> hold when the module is loaded. The
  non-ASCII marks that end some titles in the source are left out of the strings below.
\<close>

fun EmbedType_value :: "embed_type \<Rightarrow> embed" where
  "EmbedType_value success =
     \<lparr>e_title = ''Success!'', e_description = [], e_footer = [], e_color = Some Green\<rparr>"
| "EmbedType_value error =
     \<lparr>e_title = ''Error!'', e_description = [], e_footer = [], e_color = Some Red\<rparr>"
| "EmbedType_value warning =
     \<lparr>e_title = ''Warning!'', e_description = [], e_footer = [], e_color = Some Orange\<rparr>"


definition default_send_args :: send_args where
  "default_send_args =
    \<lparr>s_content = [], s_embed = None, s_embeds = NoEmbeds, s_tts = False, s_file = None,
     s_files = None, s_hidden = False, s_delete_after = None, s_components = None\<rparr>"

definition no_fields :: edit_fields where
  "no_fields =
    \<lparr>eo_content = None, eo_components = None, eo_embeds = None, eo_embed = None,
     eo_file = None, eo_files = None\<rparr>"


















text \<open>A collaborator that answers every request with the same response, and a world to start from.\<close>

definition const_http :: "resp \<Rightarrow> http" where
  "const_http r = (\<lambda>past req. r)"

definition start_world :: world where
  "start_world = \<lparr>requests = [], warnings = [], closed = [], tasks = [], deleted = [],
     embed_values = EmbedType_value, now = ''January 01, 2022 at 12:00:00 PM UTC''\<rparr>"

text \<open>The requests an operation added to those of the world \<open>w\<close> it started from.\<close>

definition issued :: "world \<Rightarrow> world \<Rightarrow> request list" where
  "issued w w' = drop (length (requests w)) (requests w')"

text \<open>The exception both \<^verbatim>\<open>defer\<close> methods raise on a context that is not fresh.\<close>

definition already_responded :: py_error where
  "already_responded = AlreadyResponded ''You have already responded to this command!''"

text \<open>The state FRESH of the specification: neither flag is set.\<close>

definition fresh :: "ctx \<Rightarrow> bool" where
  "fresh c = (\<not> deferred c \<and> \<not> responded c)"

text \<open>How one operation may move the two flags.\<close>

definition flag_move :: "ctx \<Rightarrow> ctx \<Rightarrow> bool" where
  "flag_move c c' =
    ((deferred c' = deferred c \<and> responded c' = responded c) \<or>
     (\<not> deferred c \<and> \<not> responded c \<and> deferred c' \<and> \<not> responded c') \<or>
     (\<not> responded c \<and> responded c' \<and> \<not> deferred c'))"

section \<open>Requests issued by an operation\<close>

lemma issued_append: "requests w' = requests w @ new \<Longrightarrow> issued w w' = new"
  by (simp add: issued_def)

lemma issued_self: "issued w w = []"
  by (simp add: issued_def)

lemma self_send_checks_fail:
  assumes "send_checks a = Inl e" and "self_send srv a c w = (r, c', w')"
  shows "r = Inl e \<and> c' = c \<and> issued w w' = [] \<and> requests w' = requests w"
  using assms
  by (auto simp: self_send_def component_send_def send_def issued_def log_warning_def
           split: ctx_kind.splits if_splits)

section \<open>The requests of send, case by case\<close>

lemma self_defer_fresh:
  assumes "\<not> deferred c" and "\<not> responded c" and "e \<longrightarrow> \<not> h \<and> kind c = Component"
  shows "\<exists>c1. self_defer srv h e c w =
           (Inr (), c1, w\<lparr>requests := requests w @
               [PostInitialResponse (Ack (if e then 6 else 5) (if h then Some 64 else None))]\<rparr>)
         \<and> deferred c1 \<and> \<not> responded c1 \<and> message c1 = message c \<and> kind c1 = kind c"
  using assms
  by (cases "kind c")
     (auto simp add: self_defer_def interaction_defer_def component_defer_def http_call_def Let_def)

lemma send_respond_responded:
  assumes "responded c"
  shows "send_respond srv b fs h c w =
           (Inr (srv (requests w) (PostFollowup b fs), False), c,
            w\<lparr>requests := requests w @ [PostFollowup b fs]\<rparr>)"
  using assms by (simp add: send_respond_def http_call_def)

lemma send_respond_deferred:
  assumes "\<not> responded c" and "deferred c"
  shows "\<exists>w1. send_respond srv b fs h c w =
           (Inr (srv (requests w) (Edit b fs), True),
            c\<lparr>deferred := False, responded := True\<rparr>, w1)
         \<and> requests w1 = requests w @ [Edit b fs] \<and> tasks w1 = tasks w"
  using assms by (simp add: send_respond_def http_call_def log_warning_def Let_def)

lemma send_respond_fresh_files:
  assumes "\<not> responded c" and "\<not> deferred c" and "files_truthy fs"
  shows "\<exists>c1 w1. send_respond srv b fs h c w =
           (Inr (srv (requests w @ [PostInitialResponse (Ack 5 (if h then Some 64 else None))])
                   (Edit b fs), True), c1, w1)
         \<and> requests w1 = requests w @
              [PostInitialResponse (Ack 5 (if h then Some 64 else None)), Edit b fs]
         \<and> tasks w1 = tasks w \<and> \<not> deferred c1 \<and> responded c1 \<and> message c1 = message c
         \<and> kind c1 = kind c"
proof -
  obtain c1 where d: "self_defer srv h False c w =
           (Inr (), c1, w\<lparr>requests := requests w @
                            [PostInitialResponse (Ack 5 (if h then Some 64 else None))]\<rparr>)"
    and p: "deferred c1" "\<not> responded c1" "message c1 = message c" "kind c1 = kind c"
    using self_defer_fresh [OF assms(2,1), of False h srv w] by auto
  show ?thesis
    using assms d p by (simp add: send_respond_def http_call_def log_warning_def Let_def)
qed

lemma send_respond_fresh_plain:
  assumes "\<not> responded c" and "\<not> deferred c" and "\<not> files_truthy fs"
  shows "\<exists>resp w1. send_respond srv b fs h c w = (Inr (resp, True), c\<lparr>responded := True\<rparr>, w1)
         \<and> requests w1 = requests w @
              (if h then [PostInitialResponse (WithData 4 b)]
               else [PostInitialResponse (WithData 4 b), Edit empty_body None])
         \<and> tasks w1 = tasks w
         \<and> resp = (if h then empty_resp
                    else srv (requests w @ [PostInitialResponse (WithData 4 b)])
                           (Edit empty_body None))"
  using assms by (simp add: send_respond_def http_call_def Let_def)

lemma send_respond_cases:
  "\<exists>resp c1 w1. send_respond srv b fs h c w = (Inr (resp, \<not> responded c), c1, w1)
     \<and> resp = (if h \<and> \<not> responded c \<and> \<not> deferred c \<and> \<not> files_truthy fs then empty_resp
                else srv (butlast (requests w1)) (last (requests w1)))
     \<and> requests w1 = requests w @
          (if responded c then [PostFollowup b fs]
           else if deferred c then [Edit b fs]
           else if files_truthy fs
           then [PostInitialResponse (Ack 5 (if h then Some 64 else None)), Edit b fs]
           else if h then [PostInitialResponse (WithData 4 b)]
           else [PostInitialResponse (WithData 4 b), Edit empty_body None])
     \<and> tasks w1 = tasks w \<and> message c1 = message c \<and> kind c1 = kind c
     \<and> responded c1 \<and> deferred c1 = (responded c \<and> deferred c)"
proof (cases "responded c")
  case True
  then show ?thesis by (simp add: send_respond_responded)
next
  case nr: False
  show ?thesis
  proof (cases "deferred c")
    case True
    from send_respond_deferred [OF nr True, of srv b fs h w] nr True show ?thesis by auto
  next
    case nd: False
    show ?thesis
    proof (cases "files_truthy fs")
      case True
      from send_respond_fresh_files [OF nr nd True, of srv b h w] nr nd True show ?thesis
        by (auto simp: butlast_append)
    next
      case False
      from send_respond_fresh_plain [OF nr nd False, of srv b h w] nr nd False show ?thesis
        by (auto simp: butlast_append)
    qed
  qed
qed

lemma send_after_respond:
  assumes "send_checks a = Inr (es, fs)"
    and "send_respond srv (send_base a es) fs (s_hidden a) c w = (Inr (resp, im), c1, w1)"
  shows "\<exists>r c' w'. send srv a c w = (Inr r, c', w') \<and> requests w' = requests w1
     \<and> deferred c' = deferred c1 \<and> responded c' = responded c1 \<and> kind c' = kind c1
     \<and> (s_hidden a \<longrightarrow> r = RetDict resp \<and> c' = c1 \<and> tasks w' = tasks w1)
     \<and> (\<not> s_hidden a \<longrightarrow> r = RetMessage (SlashMessage resp) \<and>
          message c' = (if im then Some (SlashMessage resp) else message c1))"
  using assms
  by (cases "s_delete_after a")
     (simp_all add: send_def close_files_def Let_def split: option.split)

lemma self_send_as_send:
  "\<exists>w0. self_send srv a c w = send srv a c w0 \<and> requests w0 = requests w \<and> tasks w0 = tasks w"
  by (cases "kind c") (auto simp: self_send_def component_send_def log_warning_def)

lemma self_send_cases:
  assumes "send_checks a = Inr (es, fs)"
  shows "\<exists>r c' w'. self_send srv a c w = (Inr r, c', w')
     \<and> requests w' = requests w @
          (if responded c then [PostFollowup (send_base a es) fs]
           else if deferred c then [Edit (send_base a es) fs]
           else if files_truthy fs
           then [PostInitialResponse (Ack 5 (if s_hidden a then Some 64 else None)),
                 Edit (send_base a es) fs]
           else if s_hidden a then [PostInitialResponse (WithData 4 (send_base a es))]
           else [PostInitialResponse (WithData 4 (send_base a es)), Edit empty_body None])
     \<and> kind c' = kind c \<and> responded c' \<and> deferred c' = (responded c \<and> deferred c)
     \<and> (s_hidden a \<longrightarrow> (\<exists>d. r = RetDict d) \<and> tasks w' = tasks w \<and> message c' = message c)
     \<and> (\<not> s_hidden a \<longrightarrow>
          (\<exists>s. r = RetMessage s \<and> message c' = (if responded c then message c else Some s)))
     \<and> (\<exists>resp. r = (if s_hidden a then RetDict resp else RetMessage (SlashMessage resp)) \<and>
           resp = (if s_hidden a \<and> \<not> responded c \<and> \<not> deferred c \<and> \<not> files_truthy fs
                   then empty_resp
                   else srv (butlast (requests w')) (last (requests w'))))"
proof -
  obtain w0 where w0: "self_send srv a c w = send srv a c w0" "requests w0 = requests w"
      "tasks w0 = tasks w"
    using self_send_as_send by blast
  obtain resp c1 w1 where
    sr: "send_respond srv (send_base a es) fs (s_hidden a) c w0 = (Inr (resp, \<not> responded c), c1, w1)"
    and p: "requests w1 = requests w0 @
          (if responded c then [PostFollowup (send_base a es) fs]
           else if deferred c then [Edit (send_base a es) fs]
           else if files_truthy fs
           then [PostInitialResponse (Ack 5 (if s_hidden a then Some 64 else None)),
                 Edit (send_base a es) fs]
           else if s_hidden a then [PostInitialResponse (WithData 4 (send_base a es))]
           else [PostInitialResponse (WithData 4 (send_base a es)), Edit empty_body None])"
       "tasks w1 = tasks w0" "message c1 = message c" "kind c1 = kind c"
       "responded c1" "deferred c1 = (responded c \<and> deferred c)"
       "resp = (if s_hidden a \<and> \<not> responded c \<and> \<not> deferred c \<and> \<not> files_truthy fs
                then empty_resp
                else srv (butlast (requests w1)) (last (requests w1)))"
    using send_respond_cases [of srv "send_base a es" fs "s_hidden a" c w0] by blast
  obtain r c' w' where s: "send srv a c w0 = (Inr r, c', w')" "requests w' = requests w1"
     "deferred c' = deferred c1" "responded c' = responded c1" "kind c' = kind c1"
     "s_hidden a \<longrightarrow> r = RetDict resp \<and> c' = c1 \<and> tasks w' = tasks w1"
     "\<not> s_hidden a \<longrightarrow> r = RetMessage (SlashMessage resp) \<and>
          message c' = (if \<not> responded c then Some (SlashMessage resp) else message c1)"
    using send_after_respond [OF assms sr] by blast
  have "self_send srv a c w = (Inr r, c', w')"
    using w0(1) s(1) by simp
  moreover have "requests w' = requests w @
          (if responded c then [PostFollowup (send_base a es) fs]
           else if deferred c then [Edit (send_base a es) fs]
           else if files_truthy fs
           then [PostInitialResponse (Ack 5 (if s_hidden a then Some 64 else None)),
                 Edit (send_base a es) fs]
           else if s_hidden a then [PostInitialResponse (WithData 4 (send_base a es))]
           else [PostInitialResponse (WithData 4 (send_base a es)), Edit empty_body None])"
    using s(2) p(1) w0(2) by simp
  moreover have "kind c' = kind c \<and> responded c' \<and> deferred c' = (responded c \<and> deferred c)"
    using s(3,4,5) p(4,5,6) by simp
  moreover have "s_hidden a \<longrightarrow> (\<exists>d. r = RetDict d) \<and> tasks w' = tasks w \<and> message c' = message c"
    using s(6) p(2,3) w0(3) by simp
  moreover have "\<not> s_hidden a \<longrightarrow>
          (\<exists>s. r = RetMessage s \<and> message c' = (if responded c then message c else Some s))"
    using s(7) p(3) by simp
  moreover have "\<exists>resp. r = (if s_hidden a then RetDict resp else RetMessage (SlashMessage resp)) \<and>
           resp = (if s_hidden a \<and> \<not> responded c \<and> \<not> deferred c \<and> \<not> files_truthy fs
                   then empty_resp
                   else srv (butlast (requests w')) (last (requests w')))"
    using s(2,6,7) p(7) by auto
  ultimately show ?thesis by blast
qed

section \<open>The requests of edit\_origin, case by case\<close>

lemma edit_origin_fields_fail:
  "edit_origin_fields f = Inl e \<Longrightarrow> edit_origin srv f c w = (Inl e, c, w)"
  by (simp add: edit_origin_def)

lemma edit_origin_fields_error:
  "edit_origin_fields f = Inl e \<Longrightarrow> \<exists>msg. e = IncorrectFormat msg"
  by (auto simp: edit_origin_fields_def Let_def split: option.splits if_splits sum.splits)

lemma edit_origin_responded:
  "edit_origin_fields f = Inr x \<Longrightarrow> responded c \<Longrightarrow>
   edit_origin srv f c w = (Inl (IncorrectFormat ''Already responded''), c, w)"
  by (cases x) (simp add: edit_origin_def)

lemma edit_origin_cases:
  assumes "edit_origin_fields f = Inr (b, fs)" and "\<not> responded c" and "kind c = Component"
  shows "\<exists>c' w'. edit_origin srv f c w = (Inr (), c', w')
     \<and> requests w' = requests w @
          (if deferred c then [Edit b fs]
           else if files_truthy fs then [PostInitialResponse (Ack 6 None), Edit b fs]
           else [PostInitialResponse (WithData 7 b)])
     \<and> kind c' = kind c \<and> responded c' \<and> \<not> deferred c' \<and> tasks w' = tasks w
     \<and> message c' = message c"
proof (cases "deferred c")
  case True
  with assms show ?thesis
    by (simp add: edit_origin_def http_call_def log_warning_def close_files_def Let_def
             split: option.split)
next
  case nd: False
  show ?thesis
  proof (cases "files_truthy fs")
    case True
    obtain c1 where d: "self_defer srv False True c w =
           (Inr (), c1, w\<lparr>requests := requests w @ [PostInitialResponse (Ack 6 None)]\<rparr>)"
      and p: "deferred c1" "\<not> responded c1" "message c1 = message c" "kind c1 = kind c"
      using self_defer_fresh [OF nd assms(2), of True False srv w] assms(3) by auto
    show ?thesis
      using assms nd True d p
      by (simp add: edit_origin_def http_call_def log_warning_def close_files_def Let_def
               split: option.split)
  next
    case False
    with assms nd show ?thesis
      by (simp add: edit_origin_def http_call_def log_warning_def close_files_def Let_def
               split: option.split)
  qed
qed


section \<open>The defer operation\<close>

lemma interaction_defer_not_fresh:
  "deferred c \<or> responded c \<Longrightarrow> interaction_defer srv h c w = (Inl already_responded, c, w)"
  by (simp add: interaction_defer_def already_responded_def)

lemma component_defer_not_fresh:
  "deferred c \<or> responded c \<Longrightarrow> component_defer srv h e i c w = (Inl already_responded, c, w)"
  by (simp add: component_defer_def already_responded_def)

lemma interaction_defer_fresh:
  "\<not> deferred c \<Longrightarrow> \<not> responded c \<Longrightarrow>
   interaction_defer srv h c w =
     (Inr (), (if h then c\<lparr>deferred_hidden := True\<rparr> else c)\<lparr>deferred := True\<rparr>,
      w\<lparr>requests := requests w @ [PostInitialResponse (Ack 5 (if h then Some 64 else None))]\<rparr>)"
  by (simp add: interaction_defer_def http_call_def)

lemma interaction_defer_ok:
  assumes "interaction_defer srv h c w = (Inr (), c1, w1)"
  shows "\<not> deferred c \<and> \<not> responded c \<and> deferred c1 \<and> \<not> responded c1 \<and>
         requests w1 = requests w @ [PostInitialResponse (Ack 5 (if h then Some 64 else None))]"
proof (cases "deferred c \<or> responded c")
  case True
  from interaction_defer_not_fresh [OF this] assms show ?thesis by simp
next
  case False
  then have f: "\<not> deferred c" "\<not> responded c" by simp_all
  from interaction_defer_fresh [OF f, of srv h w] assms f show ?thesis by auto
qed

lemma component_defer_fresh:
  "\<not> deferred c \<Longrightarrow> \<not> responded c \<Longrightarrow> \<not> (e \<and> i) \<Longrightarrow> \<not> (h \<and> e) \<Longrightarrow>
   \<exists>c1. component_defer srv h e i c w =
     (Inr (), c1,
      w\<lparr>requests := requests w @
           [PostInitialResponse (Ack (if e \<or> i then 6 else 5) (if h \<and> \<not> i then Some 64 else None))]\<rparr>)
    \<and> deferred c1 = (\<not> i) \<and> responded c1 = i \<and> message c1 = message c \<and> kind c1 = kind c"
  by (simp add: component_defer_def http_call_def)

lemma component_defer_ok:
  assumes "component_defer srv h e i c w = (Inr (), c1, w1)"
  shows "\<not> deferred c \<and> \<not> responded c \<and> deferred c1 = (\<not> i) \<and> responded c1 = i \<and>
         requests w1 = requests w @
           [PostInitialResponse (Ack (if e \<or> i then 6 else 5) (if h \<and> \<not> i then Some 64 else None))]"
proof (cases "deferred c \<or> responded c")
  case True
  from component_defer_not_fresh [OF this] assms show ?thesis by simp
next
  case False
  then have f: "\<not> deferred c" "\<not> responded c" by simp_all
  show ?thesis
  proof (cases "(e \<and> i) \<or> (h \<and> e)")
    case True
    with f assms show ?thesis by (auto simp: component_defer_def)
  next
    case False
    then have g: "\<not> (e \<and> i)" "\<not> (h \<and> e)" by simp_all
    from component_defer_fresh [OF f g, of srv w] assms f g show ?thesis by auto
  qed
qed

text \<open>
  Claim C2. \<^verbatim>\<open>defer\<close> succeeds only on a context whose flags \<open>deferred\<close> and
  \<open>responded\<close> are both false. When either flag is set, both the base method and the
  component/menu method raise the "already responded" error, return the context and the
  world as they were, and so issue no request. In particular the second of two
  successive calls, the first of which went through, raises that error: the first call
  has set one of the flags.
\<close>

theorem defer_only_when_fresh:
  "(deferred c \<or> responded c \<longrightarrow>
      interaction_defer srv h c w = (Inl already_responded, c, w) \<and>
      component_defer srv h e i c w = (Inl already_responded, c, w) \<and>
      issued w (snd (snd (interaction_defer srv h c w))) = [] \<and>
      issued w (snd (snd (component_defer srv h e i c w))) = [])
   \<and> (fst (interaction_defer srv h c w) = Inr () \<longrightarrow> \<not> deferred c \<and> \<not> responded c)
   \<and> (fst (component_defer srv h e i c w) = Inr () \<longrightarrow> \<not> deferred c \<and> \<not> responded c)
   \<and> (interaction_defer srv h d v = (Inr (), d1, v1) \<longrightarrow>
        interaction_defer srv h2 d1 v1 = (Inl already_responded, d1, v1))
   \<and> (component_defer srv h e i d v = (Inr (), d2, v2) \<longrightarrow>
        component_defer srv h2 e2 i2 d2 v2 = (Inl already_responded, d2, v2))"
proof -
  have a: "deferred c \<or> responded c \<longrightarrow>
      interaction_defer srv h c w = (Inl already_responded, c, w) \<and>
      component_defer srv h e i c w = (Inl already_responded, c, w) \<and>
      issued w (snd (snd (interaction_defer srv h c w))) = [] \<and>
      issued w (snd (snd (component_defer srv h e i c w))) = []"
    by (simp add: interaction_defer_not_fresh component_defer_not_fresh issued_def)
  have b: "fst (interaction_defer srv h c w) = Inr () \<longrightarrow> \<not> deferred c \<and> \<not> responded c"
    using interaction_defer_not_fresh [of c srv h w] by auto
  have b2: "fst (component_defer srv h e i c w) = Inr () \<longrightarrow> \<not> deferred c \<and> \<not> responded c"
    using component_defer_not_fresh [of c srv h e i w] by auto
  have c1: "interaction_defer srv h d v = (Inr (), d1, v1) \<longrightarrow>
        interaction_defer srv h2 d1 v1 = (Inl already_responded, d1, v1)"
    using interaction_defer_ok [of srv h d v d1 v1] interaction_defer_not_fresh [of d1 srv h2 v1]
    by blast
  have c2: "component_defer srv h e i d v = (Inr (), d2, v2) \<longrightarrow>
        component_defer srv h2 e2 i2 d2 v2 = (Inl already_responded, d2, v2)"
    using component_defer_ok [of srv h e i d v d2 v2]
      component_defer_not_fresh [of d2 srv h2 e2 i2 v2]
    by blast
  from a b b2 c1 c2 show ?thesis by blast
qed

theorem defer_only_when_fresh_witness:
  "interaction_defer (const_http empty_resp) False (init_context Slash) start_world
     = (Inr (), (init_context Slash)\<lparr>deferred := True\<rparr>,
        start_world\<lparr>requests := [PostInitialResponse (Ack 5 None)]\<rparr>)
   \<and> interaction_defer (const_http empty_resp) False ((init_context Slash)\<lparr>deferred := True\<rparr>)
        (start_world\<lparr>requests := [PostInitialResponse (Ack 5 None)]\<rparr>)
     = (Inl already_responded, (init_context Slash)\<lparr>deferred := True\<rparr>,
        start_world\<lparr>requests := [PostInitialResponse (Ack 5 None)]\<rparr>)"
proof -
  have first: "interaction_defer (const_http empty_resp) False (init_context Slash) start_world
     = (Inr (), (init_context Slash)\<lparr>deferred := True\<rparr>,
        start_world\<lparr>requests := [PostInitialResponse (Ack 5 None)]\<rparr>)"
    by (simp add: interaction_defer_def init_context_def start_world_def http_call_def)
  from defer_only_when_fresh show ?thesis using first by blast
qed

text \<open>
  Claim C4, as stated, fails for the "ignore" variant: on a fresh component context
  \<^verbatim>\<open>defer(ignore=True)\<close> succeeds and leaves \<open>deferred\<close> false and \<open>responded\<close> true.
\<close>

theorem defer_ignore_counterexample:
  "fresh (init_context Component) \<and>
   component_defer (const_http empty_resp) False False True (init_context Component) start_world
     = (Inr (), (init_context Component)\<lparr>responded := True\<rparr>,
        start_world\<lparr>requests := [PostInitialResponse (Ack 6 None)]\<rparr>)
   \<and> \<not> deferred ((init_context Component)\<lparr>responded := True\<rparr>)
   \<and> responded ((init_context Component)\<lparr>responded := True\<rparr>)"
  by (simp add: component_defer_def init_context_def start_world_def http_call_def fresh_def)

text \<open>
  Claim C4, amended. On a fresh context the base \<^verbatim>\<open>defer\<close> always succeeds and the
  component/menu \<^verbatim>\<open>defer\<close> succeeds unless \<^verbatim>\<open>edit_origin\<close> comes with \<^verbatim>\<open>ignore\<close> or with
  \<^verbatim>\<open>hidden\<close>. A successful plain, hidden or edit-origin \<^verbatim>\<open>defer\<close> leaves the context
  deferred and not responded; a successful "ignore" \<^verbatim>\<open>defer\<close> leaves it not deferred and
  responded.
\<close>

theorem defer_transitions:
  "(fresh c \<longrightarrow> fst (interaction_defer srv h c w) = Inr ())
   \<and> (fresh c \<and> \<not> (e \<and> i) \<and> \<not> (h \<and> e) \<longrightarrow> fst (component_defer srv h e i c w) = Inr ())
   \<and> (fresh c \<and> interaction_defer srv h c w = (Inr (), c1, w1) \<longrightarrow>
        deferred c1 \<and> \<not> responded c1)
   \<and> (fresh c \<and> component_defer srv h e i c w = (Inr (), c2, w2) \<longrightarrow>
        (if i then \<not> deferred c2 \<and> responded c2 else deferred c2 \<and> \<not> responded c2))"
proof -
  have a: "fresh c \<longrightarrow> fst (interaction_defer srv h c w) = Inr ()"
    by (simp add: fresh_def interaction_defer_fresh)
  have b: "fresh c \<and> \<not> (e \<and> i) \<and> \<not> (h \<and> e) \<longrightarrow> fst (component_defer srv h e i c w) = Inr ()"
    using component_defer_fresh [of c e i h srv w] by (auto simp: fresh_def)
  have c: "fresh c \<and> interaction_defer srv h c w = (Inr (), c1, w1) \<longrightarrow>
        deferred c1 \<and> \<not> responded c1"
    using interaction_defer_ok [of srv h c w c1 w1] by blast
  have d: "fresh c \<and> component_defer srv h e i c w = (Inr (), c2, w2) \<longrightarrow>
        (if i then \<not> deferred c2 \<and> responded c2 else deferred c2 \<and> \<not> responded c2)"
    using component_defer_ok [of srv h e i c w c2 w2] by auto
  from a b c d show ?thesis by blast
qed

theorem defer_transitions_witness:
  "fresh (init_context Component) \<and>
   component_defer (const_http empty_resp) True False False (init_context Component) start_world
     = (Inr (), (init_context Component)\<lparr>deferred_hidden := True, deferred := True\<rparr>,
        start_world\<lparr>requests := [PostInitialResponse (Ack 5 (Some 64))]\<rparr>)
   \<and> deferred ((init_context Component)\<lparr>deferred_hidden := True, deferred := True\<rparr>)
   \<and> \<not> responded ((init_context Component)\<lparr>deferred_hidden := True, deferred := True\<rparr>)"
proof -
  have f: "fresh (init_context Component)"
    by (simp add: fresh_def init_context_def)
  have d: "component_defer (const_http empty_resp) True False False (init_context Component)
             start_world
     = (Inr (), (init_context Component)\<lparr>deferred_hidden := True, deferred := True\<rparr>,
        start_world\<lparr>requests := [PostInitialResponse (Ack 5 (Some 64))]\<rparr>)"
    by (simp add: component_defer_def init_context_def start_world_def http_call_def)
  from defer_transitions [of "init_context Component" "const_http empty_resp" True start_world
      False False "(init_context Component)\<lparr>deferred_hidden := True, deferred := True\<rparr>"
      "start_world\<lparr>requests := [PostInitialResponse (Ack 5 (Some 64))]\<rparr>"
      "(init_context Component)\<lparr>deferred_hidden := True, deferred := True\<rparr>"
      "start_world\<lparr>requests := [PostInitialResponse (Ack 5 (Some 64))]\<rparr>"] f d
  show ?thesis by simp
qed

section \<open>Argument checks of send\<close>





section \<open>The response state machine\<close>

text \<open>
  Claim C1, as stated, fails for a call whose arguments do not pass the checks at the head
  of \<^verbatim>\<open>send\<close>: on a context that has responded, \<^verbatim>\<open>send\<close> with both \<^verbatim>\<open>embed\<close> and
  \<^verbatim>\<open>embeds\<close> raises and issues no request at all, so no followup.
\<close>

theorem send_after_responded_counterexample:
  "responded ((init_context Slash)\<lparr>responded := True\<rparr>) \<and>
   self_send (const_http empty_resp)
     (default_send_args\<lparr>s_embed := Some (EmbedType_value success),
        s_embeds := EmbedList [EmbedType_value error]\<rparr>)
     ((init_context Slash)\<lparr>responded := True\<rparr>) start_world
   = (Inl (IncorrectFormat ''You can't use both `embed` and `embeds`!''),
      (init_context Slash)\<lparr>responded := True\<rparr>, start_world)
   \<and> requests start_world = []"
  by (simp add: self_send_def send_def send_checks_def embed_arg_truthy_def embed_truthy_def
        init_context_def default_send_args_def start_world_def)

text \<open>
  Claim C1, amended. Once \<open>responded\<close> is true, a call of \<^verbatim>\<open>send\<close> whose arguments
  pass the argument checks issues exactly one request, the followup, and returns; a call
  whose arguments fail them raises the error of the failed check and issues nothing. In
  neither case is an initial response among the requests issued.
\<close>

theorem send_after_responded:
  assumes "responded c" and "self_send srv a c w = (r, c', w')"
  shows "(\<forall>p. PostInitialResponse p \<notin> set (issued w w')) \<and>
         (\<forall>es fs. send_checks a = Inr (es, fs) \<longrightarrow>
            issued w w' = [PostFollowup (send_base a es) fs] \<and> (\<exists>x. r = Inr x)) \<and>
         (\<forall>e. send_checks a = Inl e \<longrightarrow> r = Inl e \<and> issued w w' = [] \<and> c' = c)"
proof (cases "send_checks a")
  case (Inl e)
  from self_send_checks_fail [OF Inl assms(2)] Inl show ?thesis by simp
next
  case (Inr p)
  obtain es fs where p: "p = (es, fs)" by (cases p) auto
  from self_send_cases [of a es fs srv c w] Inr p assms
  have "requests w' = requests w @ [PostFollowup (send_base a es) fs] \<and> (\<exists>x. r = Inr x)"
    by auto
  then have "issued w w' = [PostFollowup (send_base a es) fs] \<and> (\<exists>x. r = Inr x)"
    by (simp add: issued_append)
  with Inr p show ?thesis by simp
qed

theorem send_after_responded_witness:
  "responded ((init_context Slash)\<lparr>responded := True\<rparr>) \<and>
   issued start_world (snd (snd (self_send (const_http empty_resp)
       (default_send_args\<lparr>s_content := ''again''\<rparr>)
       ((init_context Slash)\<lparr>responded := True\<rparr>) start_world)))
   = [PostFollowup (send_base (default_send_args\<lparr>s_content := ''again''\<rparr>) NoEmbeds) None]"
proof -
  let ?a = "default_send_args\<lparr>s_content := ''again''\<rparr>"
  let ?c = "(init_context Slash)\<lparr>responded := True\<rparr>"
  let ?out = "self_send (const_http empty_resp) ?a ?c start_world"
  have r: "responded ?c" by simp
  have ck: "send_checks ?a = Inr (NoEmbeds, None)"
    by (simp add: send_checks_def default_send_args_def embed_arg_truthy_def files_truthy_def
          delay_truthy_def components_truthy_def)
  have "?out = (fst ?out, fst (snd ?out), snd (snd ?out))" by simp
  from send_after_responded [OF r this] ck r show ?thesis by simp
qed

text \<open>
  Claim C3, as stated, fails: on a fresh context a \<^verbatim>\<open>send\<close> without attachments and with
  \<^verbatim>\<open>hidden\<close> false passes the checks, is on neither of the two paths the claim excepts,
  and issues two requests, the initial response and then an edit with an empty body that
  fetches the message.
\<close>

theorem send_two_requests_counterexample:
  "send_checks (default_send_args\<lparr>s_content := ''hi''\<rparr>) = Inr (NoEmbeds, None) \<and>
   fresh (init_context Slash) \<and>
   issued start_world (snd (snd (self_send (const_http empty_resp)
       (default_send_args\<lparr>s_content := ''hi''\<rparr>) (init_context Slash) start_world)))
   = [PostInitialResponse (WithData 4 (send_base (default_send_args\<lparr>s_content := ''hi''\<rparr>) NoEmbeds)),
      Edit empty_body None]"
proof -
  let ?a = "default_send_args\<lparr>s_content := ''hi''\<rparr>"
  have ck: "send_checks ?a = Inr (NoEmbeds, None)"
    by (simp add: send_checks_def default_send_args_def embed_arg_truthy_def files_truthy_def
          delay_truthy_def components_truthy_def)
  have f: "fresh (init_context Slash)"
    by (simp add: fresh_def init_context_def)
  have h: "\<not> s_hidden ?a" by (simp add: default_send_args_def)
  from self_send_cases [OF ck, of "const_http empty_resp" "init_context Slash" start_world] f h
  have "issued start_world (snd (snd (self_send (const_http empty_resp) ?a
           (init_context Slash) start_world)))
     = [PostInitialResponse (WithData 4 (send_base ?a NoEmbeds)), Edit empty_body None]"
    by (auto simp: fresh_def files_truthy_def issued_append)
  with ck f show ?thesis by simp
qed

text \<open>
  Claim C3, amended. A successful \<^verbatim>\<open>defer\<close> issues exactly one request. A \<^verbatim>\<open>send\<close> whose
  arguments pass the checks returns and issues exactly one request, except on a fresh
  context (neither flag set) when attachments are present (defer, then edit) or \<^verbatim>\<open>hidden\<close>
  is false (initial response, then the fetching edit), where it issues exactly two; on
  a deferred context it issues one, the edit. An \<^verbatim>\<open>edit_origin\<close> on a component context
  that has not responded, with arguments that pass its checks, returns and issues exactly
  one request, except on a fresh context with attachments (defer, then edit), where it
  issues exactly two.
\<close>

theorem request_counts:
  "(interaction_defer srv h c w = (Inr (), c1, w1) \<longrightarrow> length (issued w w1) = 1) \<and>
   (component_defer srv h e i c w = (Inr (), c2, w2) \<longrightarrow> length (issued w w2) = 1) \<and>
   (send_checks a = Inr (es, fs) \<and> self_send srv a c w = (r, c3, w3) \<longrightarrow>
      (\<exists>x. r = Inr x) \<and>
      length (issued w w3) =
        (if \<not> responded c \<and> \<not> deferred c \<and> (files_truthy fs \<or> \<not> s_hidden a) then 2 else 1)) \<and>
   (kind c = Component \<and> \<not> responded c \<and> edit_origin_fields f = Inr (b, gs) \<and>
    edit_origin srv f c w = (r4, c4, w4) \<longrightarrow>
      r4 = Inr () \<and>
      length (issued w w4) = (if \<not> deferred c \<and> files_truthy gs then 2 else 1))"
proof -
  have a: "interaction_defer srv h c w = (Inr (), c1, w1) \<longrightarrow> length (issued w w1) = 1"
    using interaction_defer_ok [of srv h c w c1 w1] by (auto simp: issued_append)
  have b: "component_defer srv h e i c w = (Inr (), c2, w2) \<longrightarrow> length (issued w w2) = 1"
    using component_defer_ok [of srv h e i c w c2 w2] by (auto simp: issued_append)
  have s: "send_checks a = Inr (es, fs) \<and> self_send srv a c w = (r, c3, w3) \<longrightarrow>
      (\<exists>x. r = Inr x) \<and>
      length (issued w w3) =
        (if \<not> responded c \<and> \<not> deferred c \<and> (files_truthy fs \<or> \<not> s_hidden a) then 2 else 1)"
  proof
    assume h: "send_checks a = Inr (es, fs) \<and> self_send srv a c w = (r, c3, w3)"
    from self_send_cases [of a es fs srv c w] h
    have "(\<exists>x. r = Inr x) \<and> requests w3 = requests w @
          (if responded c then [PostFollowup (send_base a es) fs]
           else if deferred c then [Edit (send_base a es) fs]
           else if files_truthy fs
           then [PostInitialResponse (Ack 5 (if s_hidden a then Some 64 else None)),
                 Edit (send_base a es) fs]
           else if s_hidden a then [PostInitialResponse (WithData 4 (send_base a es))]
           else [PostInitialResponse (WithData 4 (send_base a es)), Edit empty_body None])"
      by auto
    then show "(\<exists>x. r = Inr x) \<and>
      length (issued w w3) =
        (if \<not> responded c \<and> \<not> deferred c \<and> (files_truthy fs \<or> \<not> s_hidden a) then 2 else 1)"
      by (auto simp: issued_append)
  qed
  have eo: "kind c = Component \<and> \<not> responded c \<and> edit_origin_fields f = Inr (b, gs) \<and>
    edit_origin srv f c w = (r4, c4, w4) \<longrightarrow>
      r4 = Inr () \<and>
      length (issued w w4) = (if \<not> deferred c \<and> files_truthy gs then 2 else 1)"
  proof
    assume h: "kind c = Component \<and> \<not> responded c \<and> edit_origin_fields f = Inr (b, gs) \<and>
      edit_origin srv f c w = (r4, c4, w4)"
    from edit_origin_cases [of f b gs c srv w] h
    have "r4 = Inr () \<and> requests w4 = requests w @
          (if deferred c then [Edit b gs]
           else if files_truthy gs then [PostInitialResponse (Ack 6 None), Edit b gs]
           else [PostInitialResponse (WithData 7 b)])"
      by auto
    then show "r4 = Inr () \<and>
      length (issued w w4) = (if \<not> deferred c \<and> files_truthy gs then 2 else 1)"
      by (auto simp: issued_append)
  qed
  from a b s eo show ?thesis by blast
qed


theorem request_counts_witness:
  "length (issued start_world (snd (snd
       (interaction_defer (const_http empty_resp) False (init_context Component) start_world)))) = 1
   \<and> length (issued start_world (snd (snd
       (component_defer (const_http empty_resp) False True False (init_context Component)
          start_world)))) = 1
   \<and> length (issued start_world (snd (snd
       (self_send (const_http empty_resp) (default_send_args\<lparr>s_content := ''hi''\<rparr>)
          (init_context Component) start_world)))) = 2
   \<and> length (issued start_world (snd (snd
       (edit_origin (const_http empty_resp) (no_fields\<lparr>eo_content := Some (Some ''ok'')\<rparr>)
          (init_context Component) start_world)))) = 1"
proof -
  let ?srv = "const_http empty_resp"
  let ?c = "init_context Component"
  let ?a = "default_send_args\<lparr>s_content := ''hi''\<rparr>"
  let ?f = "no_fields\<lparr>eo_content := Some (Some ''ok'')\<rparr>"
  let ?o1 = "interaction_defer ?srv False ?c start_world"
  let ?o2 = "component_defer ?srv False True False ?c start_world"
  let ?o3 = "self_send ?srv ?a ?c start_world"
  let ?o4 = "edit_origin ?srv ?f ?c start_world"
  have f: "\<not> deferred ?c" "\<not> responded ?c" "kind ?c = Component"
    by (simp_all add: init_context_def)
  have "fst ?o1 = Inr ()"
    using interaction_defer_fresh [OF f(1,2), of ?srv False start_world] by simp
  then have 1: "?o1 = (Inr (), fst (snd ?o1), snd (snd ?o1))"
    by (simp add: prod_eq_iff)
  have "fst ?o2 = Inr ()"
    using component_defer_fresh [OF f(1,2), of True False False ?srv start_world] by auto
  then have 2: "?o2 = (Inr (), fst (snd ?o2), snd (snd ?o2))"
    by (simp add: prod_eq_iff)
  have ck: "send_checks ?a = Inr (NoEmbeds, None)"
    by (simp add: send_checks_def default_send_args_def embed_arg_truthy_def files_truthy_def
          delay_truthy_def components_truthy_def)
  have 3: "?o3 = (fst ?o3, fst (snd ?o3), snd (snd ?o3))"
    by simp
  have eof: "edit_origin_fields ?f = Inr (empty_body\<lparr>b_content := Some (Some ''ok'')\<rparr>, None)"
    by (simp add: edit_origin_fields_def no_fields_def)
  have 4: "?o4 = (fst ?o4, fst (snd ?o4), snd (snd ?o4))"
    by simp
  have h: "\<not> s_hidden ?a" "\<not> files_truthy None"
    by (simp_all add: default_send_args_def files_truthy_def)
  from request_counts [where srv = ?srv and c = ?c and w = start_world and h = False
      and ?c1.0 = "fst (snd ?o1)" and ?w1.0 = "snd (snd ?o1)"
      and e = True and i = False and ?c2.0 = "fst (snd ?o2)" and ?w2.0 = "snd (snd ?o2)"
      and a = ?a and es = NoEmbeds and fs = None and r = "fst ?o3"
      and ?c3.0 = "fst (snd ?o3)" and ?w3.0 = "snd (snd ?o3)"
      and f = ?f and b = "empty_body\<lparr>b_content := Some (Some ''ok'')\<rparr>" and gs = None
      and ?r4.0 = "fst ?o4" and ?c4.0 = "fst (snd ?o4)" and ?w4.0 = "snd (snd ?o4)"]
    1 2 ck 3 eof 4 f h
  show ?thesis by simp
qed

text \<open>
  Claim C7, as stated, fails for arguments that do not pass the checks of \<^verbatim>\<open>edit_origin\<close>,
  which come before the test of \<open>responded\<close>: with both \<^verbatim>\<open>embeds\<close> and \<^verbatim>\<open>embed\<close> among
  the fields the error raised carries the message of that conflict, not "Already
  responded".
\<close>

theorem edit_origin_after_responded_counterexample:
  "responded ((init_context Component)\<lparr>responded := True\<rparr>) \<and>
   edit_origin (const_http empty_resp)
     (no_fields\<lparr>eo_embeds := Some (EmbedList []), eo_embed := Some None\<rparr>)
     ((init_context Component)\<lparr>responded := True\<rparr>) start_world
   = (Inl (IncorrectFormat ''You can't use both `embed` and `embeds`!''),
      (init_context Component)\<lparr>responded := True\<rparr>, start_world)
   \<and> ''You can't use both `embed` and `embeds`!'' \<noteq> ''Already responded''"
  by (simp add: edit_origin_def edit_origin_fields_def no_fields_def empty_body_def)

text \<open>
  Claim C7, amended. On a component context whose \<open>responded\<close> flag is true every call of
  \<^verbatim>\<open>edit_origin\<close> raises an "incorrect format" error, issues no request and leaves the
  context and the world as they were; the error carries the message "Already responded"
  whenever the arguments pass the argument checks.
\<close>

theorem edit_origin_after_responded:
  assumes "responded c" and "edit_origin srv f c w = (r, c', w')"
  shows "(\<exists>msg. r = Inl (IncorrectFormat msg)) \<and> c' = c \<and> w' = w \<and> issued w w' = [] \<and>
         (\<forall>x. edit_origin_fields f = Inr x \<longrightarrow> r = Inl (IncorrectFormat ''Already responded''))"
proof (cases "edit_origin_fields f")
  case (Inl e)
  from edit_origin_fields_error [OF Inl] edit_origin_fields_fail [OF Inl, of srv c w] assms(2) Inl
  show ?thesis by (auto simp: issued_self)
next
  case (Inr x)
  from edit_origin_responded [OF Inr assms(1), of srv w] assms(2) Inr
  show ?thesis by (auto simp: issued_self)
qed

theorem edit_origin_after_responded_witness:
  "responded ((init_context Component)\<lparr>responded := True\<rparr>) \<and>
   edit_origin (const_http empty_resp) (no_fields\<lparr>eo_content := Some (Some ''late'')\<rparr>)
     ((init_context Component)\<lparr>responded := True\<rparr>) start_world
   = (Inl (IncorrectFormat ''Already responded''),
      (init_context Component)\<lparr>responded := True\<rparr>, start_world)"
proof -
  let ?c = "(init_context Component)\<lparr>responded := True\<rparr>"
  let ?f = "no_fields\<lparr>eo_content := Some (Some ''late'')\<rparr>"
  let ?out = "edit_origin (const_http empty_resp) ?f ?c start_world"
  have r: "responded ?c" by simp
  have eof: "edit_origin_fields ?f = Inr (empty_body\<lparr>b_content := Some (Some ''late'')\<rparr>, None)"
    by (simp add: edit_origin_fields_def no_fields_def)
  have "?out = (fst ?out, fst (snd ?out), snd (snd ?out))" by simp
  from edit_origin_after_responded [OF r this] eof r show ?thesis
    by (simp add: prod_eq_iff)
qed

text \<open>
  Claim C10, as stated, fails on the direct initial response: a hidden \<^verbatim>\<open>send\<close> without
  attachments on a fresh context passes the checks and issues one request, to which the
  collaborator here answers a dictionary with an id, yet the method returns the literal
  empty dictionary \<^verbatim>\<open>{}\<close> it assigns to \<^verbatim>\<open>resp\<close>, not a response of the collaborator.
\<close>

theorem send_hidden_literal_counterexample:
  "s_hidden (default_send_args\<lparr>s_content := ''psst'', s_hidden := True\<rparr>) \<and>
   send_checks (default_send_args\<lparr>s_content := ''psst'', s_hidden := True\<rparr>)
     = Inr (NoEmbeds, None) \<and>
   fst (self_send (const_http (Resp (Some 7) []))
          (default_send_args\<lparr>s_content := ''psst'', s_hidden := True\<rparr>)
          (init_context Slash) start_world) = Inr (RetDict empty_resp) \<and>
   issued start_world (snd (snd (self_send (const_http (Resp (Some 7) []))
          (default_send_args\<lparr>s_content := ''psst'', s_hidden := True\<rparr>)
          (init_context Slash) start_world)))
     = [PostInitialResponse (WithData 4
          (send_base (default_send_args\<lparr>s_content := ''psst'', s_hidden := True\<rparr>) NoEmbeds))] \<and>
   const_http (Resp (Some 7) []) []
     (PostInitialResponse (WithData 4
          (send_base (default_send_args\<lparr>s_content := ''psst'', s_hidden := True\<rparr>) NoEmbeds)))
     = Resp (Some 7) [] \<and>
   empty_resp \<noteq> Resp (Some 7) []"
proof -
  let ?srv = "const_http (Resp (Some 7) [])"
  let ?a = "default_send_args\<lparr>s_content := ''psst'', s_hidden := True\<rparr>"
  let ?c = "init_context Slash"
  let ?out = "self_send ?srv ?a ?c start_world"
  have h: "s_hidden ?a" by simp
  have ck: "send_checks ?a = Inr (NoEmbeds, None)"
    by (simp add: send_checks_def default_send_args_def embed_arg_truthy_def files_truthy_def
          delay_truthy_def components_truthy_def)
  have f: "\<not> responded ?c" "\<not> deferred ?c" "\<not> files_truthy None"
    by (simp_all add: init_context_def files_truthy_def)
  from self_send_cases [OF ck, of ?srv ?c start_world] h f
  have r: "fst ?out = Inr (RetDict empty_resp)"
    and q: "requests (snd (snd ?out)) = requests start_world @
              [PostInitialResponse (WithData 4 (send_base ?a NoEmbeds))]"
    by auto
  from q have i: "issued start_world (snd (snd ?out))
                    = [PostInitialResponse (WithData 4 (send_base ?a NoEmbeds))]"
    by (rule issued_append)
  have k: "?srv [] (PostInitialResponse (WithData 4 (send_base ?a NoEmbeds))) = Resp (Some 7) []"
    by (simp add: const_http_def)
  have n: "empty_resp \<noteq> Resp (Some 7) []"
    by (simp add: empty_resp_def)
  from h ck r i k n show ?thesis by blast
qed

text \<open>
  Claim C10, amended. A call of \<^verbatim>\<open>send\<close> that returns (so its arguments passed the
  checks) with \<^verbatim>\<open>hidden\<close> true returns a dictionary, never a \<^verbatim>\<open>SlashMessage\<close>: the
  literal empty dictionary \<^verbatim>\<open>{}\<close> when the call is a direct initial response (fresh
  context, no attachments), and otherwise what the collaborator answered to the last
  request, the edit or the followup. It hands no delayed-delete task to the event loop
  and leaves the \<open>message\<close> field as it was. With \<^verbatim>\<open>hidden\<close> false it returns a
  \<^verbatim>\<open>SlashMessage\<close>, and stores it in \<open>message\<close> exactly when the call was the initial
  response. So a \<^verbatim>\<open>SlashMessage\<close> is built, and \<open>message\<close> assigned, only when \<^verbatim>\<open>hidden\<close>
  is false.
\<close>

theorem send_hidden_returns_dict:
  assumes "self_send srv a c w = (Inr r, c', w')"
  shows "(s_hidden a \<longrightarrow>
            (\<exists>d. r = RetDict d) \<and> tasks w' = tasks w \<and> message c' = message c \<and>
            (\<forall>es fs. send_checks a = Inr (es, fs) \<longrightarrow>
               r = RetDict (if \<not> responded c \<and> \<not> deferred c \<and> \<not> files_truthy fs
                            then empty_resp
                            else srv (butlast (requests w')) (last (requests w'))))) \<and>
         (\<not> s_hidden a \<longrightarrow>
            (\<exists>s. r = RetMessage s \<and> message c' = (if responded c then message c else Some s)))"
proof (cases "send_checks a")
  case (Inl e)
  from self_send_checks_fail [OF Inl assms] show ?thesis by simp
next
  case (Inr p)
  obtain es fs where p: "p = (es, fs)" by (cases p) auto
  from self_send_cases [of a es fs srv c w] Inr p assms show ?thesis by auto
qed

theorem send_hidden_returns_dict_witness:
  "fst (self_send (const_http (Resp (Some 7) []))
          (default_send_args\<lparr>s_content := ''later'', s_hidden := True\<rparr>)
          ((init_context Slash)\<lparr>deferred := True, deferred_hidden := True\<rparr>) start_world)
     = Inr (RetDict (Resp (Some 7) [])) \<and>
   tasks (snd (snd (self_send (const_http (Resp (Some 7) []))
          (default_send_args\<lparr>s_content := ''later'', s_hidden := True\<rparr>)
          ((init_context Slash)\<lparr>deferred := True, deferred_hidden := True\<rparr>) start_world)))
     = [] \<and>
   message (fst (snd (self_send (const_http (Resp (Some 7) []))
          (default_send_args\<lparr>s_content := ''later'', s_hidden := True\<rparr>)
          ((init_context Slash)\<lparr>deferred := True, deferred_hidden := True\<rparr>) start_world)))
     = None"
proof -
  let ?srv = "const_http (Resp (Some 7) [])"
  let ?a = "default_send_args\<lparr>s_content := ''later'', s_hidden := True\<rparr>"
  let ?c = "(init_context Slash)\<lparr>deferred := True, deferred_hidden := True\<rparr>"
  let ?out = "self_send ?srv ?a ?c start_world"
  have ck: "send_checks ?a = Inr (NoEmbeds, None)"
    by (simp add: send_checks_def default_send_args_def embed_arg_truthy_def files_truthy_def
          delay_truthy_def components_truthy_def)
  from self_send_cases [OF ck, of ?srv ?c start_world]
  obtain x where x: "fst ?out = Inr x" by auto
  then have eq: "?out = (Inr x, fst (snd ?out), snd (snd ?out))"
    by (simp add: prod_eq_iff)
  have h: "s_hidden ?a" by simp
  note facts = send_hidden_returns_dict [OF eq, THEN conjunct1, THEN mp, OF h]
  from facts have t: "tasks (snd (snd ?out)) = tasks start_world"
    and m: "message (fst (snd ?out)) = message ?c"
    by blast+
  from facts ck
  have "x = RetDict (if \<not> responded ?c \<and> \<not> deferred ?c \<and> \<not> files_truthy None
                     then empty_resp
                     else ?srv (butlast (requests (snd (snd ?out))))
                            (last (requests (snd (snd ?out)))))"
    by blast
  then have d: "x = RetDict (Resp (Some 7) [])"
    by (simp add: const_http_def)
  from x d t m show ?thesis
    by (simp add: start_world_def init_context_def)
qed

section \<open>The two flags along a run\<close>

lemma interaction_defer_move:
  assumes "interaction_defer srv h c w = (r, c', w')"
  shows "flag_move c c'"
proof (cases "deferred c \<or> responded c")
  case True
  from interaction_defer_not_fresh [OF True, of srv h w] assms show ?thesis
    by (simp add: flag_move_def)
next
  case False
  then have f: "\<not> deferred c" "\<not> responded c" by simp_all
  from interaction_defer_fresh [OF f, of srv h w] assms f show ?thesis
    by (auto simp: flag_move_def)
qed

lemma component_defer_move:
  assumes "component_defer srv h e i c w = (r, c', w')"
  shows "flag_move c c'"
proof (cases "deferred c \<or> responded c")
  case True
  from component_defer_not_fresh [OF True, of srv h e i w] assms show ?thesis
    by (simp add: flag_move_def)
next
  case False
  then have f: "\<not> deferred c" "\<not> responded c" by simp_all
  show ?thesis
  proof (cases "(e \<and> i) \<or> (h \<and> e)")
    case True
    with f assms have "c' = c" by (auto simp: component_defer_def split: if_splits)
    then show ?thesis by (simp add: flag_move_def)
  next
    case False
    then have g: "\<not> (e \<and> i)" "\<not> (h \<and> e)" by simp_all
    from component_defer_fresh [OF f g, of srv w] assms f show ?thesis
      by (auto simp: flag_move_def)
  qed
qed

lemma self_send_move:
  assumes "self_send srv a c w = (r, c', w')"
  shows "flag_move c c'"
proof (cases "send_checks a")
  case (Inl e)
  from self_send_checks_fail [OF Inl assms] show ?thesis by (simp add: flag_move_def)
next
  case (Inr p)
  obtain es fs where p: "p = (es, fs)" by (cases p) auto
  from self_send_cases [of a es fs srv c w] Inr p assms
  have "responded c' \<and> deferred c' = (responded c \<and> deferred c)" by auto
  then show ?thesis by (auto simp: flag_move_def)
qed

lemma edit_origin_move:
  assumes "edit_origin srv f c w = (r, c', w')" and "kind c = Component"
  shows "flag_move c c'"
proof (cases "edit_origin_fields f")
  case (Inl e)
  from edit_origin_fields_fail [OF Inl, of srv c w] assms show ?thesis
    by (simp add: flag_move_def)
next
  case (Inr p)
  obtain b fs where p: "p = (b, fs)" by (cases p) auto
  show ?thesis
  proof (cases "responded c")
    case True
    from edit_origin_responded [OF Inr True, of srv w] assms show ?thesis
      by (simp add: flag_move_def)
  next
    case False
    from edit_origin_cases [of f b fs c srv w] Inr p False assms
    have "responded c' \<and> \<not> deferred c'" by auto
    with False show ?thesis by (simp add: flag_move_def)
  qed
qed

lemma step_move:
  assumes "step srv x (c, w) = (c', w')"
  shows "flag_move c c'"
proof (cases x)
  case (Defer h)
  obtain r where "call_defer srv h c w = (r, c', w')"
    using assms Defer by (cases "call_defer srv h c w") auto
  then show ?thesis
    using interaction_defer_move component_defer_move
    by (cases "kind c") (auto simp: call_defer_def)
next
  case (DeferExt h e i)
  obtain r where "call_defer_ext srv h e i c w = (r, c', w')"
    using assms DeferExt by (cases "call_defer_ext srv h e i c w") auto
  then show ?thesis
    using component_defer_move
    by (cases "kind c") (auto simp: call_defer_ext_def flag_move_def)
next
  case (Send a)
  obtain r where "self_send srv a c w = (r, c', w')"
    using assms Send by (cases "self_send srv a c w") auto
  then show ?thesis by (rule self_send_move)
next
  case (EditOrigin f)
  obtain r where "call_edit_origin srv f c w = (r, c', w')"
    using assms EditOrigin by (cases "call_edit_origin srv f c w") auto
  then show ?thesis
    using edit_origin_move
    by (cases "kind c") (auto simp: call_edit_origin_def flag_move_def)
qed

lemma run_flags:
  assumes "\<not> (deferred c \<and> responded c)" and "run srv ops (c, w) = (c', w')"
  shows "\<not> (deferred c' \<and> responded c')"
  using assms
proof (induction ops arbitrary: c w)
  case Nil
  then show ?case by simp
next
  case (Cons x xs)
  obtain c1 w1 where s: "step srv x (c, w) = (c1, w1)"
    by (cases "step srv x (c, w)") auto
  from step_move [OF s] Cons.prems(1) have "\<not> (deferred c1 \<and> responded c1)"
    by (auto simp: flag_move_def)
  moreover from Cons.prems(2) s have "run srv xs (c1, w1) = (c', w')" by simp
  ultimately show ?case by (rule Cons.IH)
qed

text \<open>
  Claim C9. After any sequence of \<^verbatim>\<open>defer\<close>, \<^verbatim>\<open>send\<close> and \<^verbatim>\<open>edit_origin\<close> calls on a
  newly created context of any class, whether the calls return or raise, the flags
  \<open>deferred\<close> and \<open>responded\<close> are not both true. And from any state, a call that turns
  \<open>responded\<close> from false to true ends with \<open>deferred\<close> false.
\<close>

theorem flags_never_both:
  "(run srv ops (init_context k, w) = (c', w') \<longrightarrow> \<not> (deferred c' \<and> responded c')) \<and>
   (step srv x (c, v) = (c1, v1) \<and> \<not> responded c \<and> responded c1 \<longrightarrow> \<not> deferred c1)"
proof -
  have i: "\<not> (deferred (init_context k) \<and> responded (init_context k))"
    by (simp add: init_context_def)
  have a: "run srv ops (init_context k, w) = (c', w') \<longrightarrow> \<not> (deferred c' \<and> responded c')"
    using run_flags [OF i] by blast
  have b: "step srv x (c, v) = (c1, v1) \<and> \<not> responded c \<and> responded c1 \<longrightarrow> \<not> deferred c1"
    using step_move [of srv x c v c1 v1] by (auto simp: flag_move_def)
  from a b show ?thesis by blast
qed

theorem flags_never_both_witness:
  "responded (fst (step (const_http empty_resp) (Send (default_send_args\<lparr>s_content := ''hi''\<rparr>))
       ((init_context Slash)\<lparr>deferred := True\<rparr>, start_world)))
   \<and> \<not> deferred (fst (step (const_http empty_resp)
       (Send (default_send_args\<lparr>s_content := ''hi''\<rparr>))
       ((init_context Slash)\<lparr>deferred := True\<rparr>, start_world)))
   \<and> \<not> (deferred (fst (run (const_http empty_resp)
            [Defer False, Send (default_send_args\<lparr>s_content := ''hi''\<rparr>), Defer True]
            (init_context Slash, start_world)))
        \<and> responded (fst (run (const_http empty_resp)
            [Defer False, Send (default_send_args\<lparr>s_content := ''hi''\<rparr>), Defer True]
            (init_context Slash, start_world))))"
proof -
  let ?srv = "const_http empty_resp"
  let ?a = "default_send_args\<lparr>s_content := ''hi''\<rparr>"
  let ?c = "(init_context Slash)\<lparr>deferred := True\<rparr>"
  let ?s = "step ?srv (Send ?a) (?c, start_world)"
  let ?ops = "[Defer False, Send ?a, Defer True]"
  let ?r = "run ?srv ?ops (init_context Slash, start_world)"
  have ck: "send_checks ?a = Inr (NoEmbeds, None)"
    by (simp add: send_checks_def default_send_args_def embed_arg_truthy_def files_truthy_def
          delay_truthy_def components_truthy_def)
  from self_send_cases [OF ck, of ?srv ?c start_world]
  have r: "responded (fst ?s)" by auto
  have n: "\<not> responded ?c" by (simp add: init_context_def)
  have s: "?s = (fst ?s, snd ?s)" by simp
  have t: "?r = (fst ?r, snd ?r)" by simp
  from flags_never_both [where srv = ?srv and ops = ?ops and k = Slash and w = start_world
      and c' = "fst ?r" and w' = "snd ?r" and x = "Send ?a" and c = ?c and v = start_world
      and ?c1.0 = "fst ?s" and ?v1.0 = "snd ?s"] r n s t
  show ?thesis by blast
qed

section \<open>Cancelling the confirmation prompt\<close>




















end
